theory Spec2Isabelle
  imports Main
begin

section \<open>Python values and exceptions\<close>

text \<open>
  The exceptions the modelled code can raise. \<open>Private\<close> is the library's own exception
  (\<open>arez/exceptions.py\<close>, the access-restricted error); \<open>TransportError\<close> stands for any
  failure raised by the endpoint's \<open>request\<close> coroutine; the others are Python's builtin
  exceptions.
\<close>

datatype error =
    Private
  | TransportError
  | TypeError
  | KeyError
  | AttributeError
  | AssertionError
  | ValueError

text \<open>
  Python values as they occur as elements, attribute values and search keys of the lookup
  helpers. An object is its identity together with what attribute lookup answers on it,
  name by name: a name that is not listed raises \<open>AttributeError\<close>. Objects compare by
  identity (the default \<open>object.__eq__\<close>).
\<close>

datatype pyval =
    PNone
  | PBool bool
  | PInt int
  | PStr string
  | PObj nat "(string \<times> pyval) list"

fun py_eq :: "pyval \<Rightarrow> pyval \<Rightarrow> bool" where
  "py_eq PNone PNone = True"
| "py_eq (PBool a) (PBool b) = (a = b)"
| "py_eq (PBool a) (PInt j) = ((if a then 1 else 0) = j)"
| "py_eq (PInt i) (PBool b) = (i = (if b then 1 else 0))"
| "py_eq (PInt i) (PInt j) = (i = j)"
| "py_eq (PStr s) (PStr t) = (s = t)"
| "py_eq (PObj i _) (PObj j _) = (i = j)"
| "py_eq _ _ = False"

definition py_ne :: "pyval \<Rightarrow> pyval \<Rightarrow> bool" where
  "py_ne a b = (\<not> py_eq a b)"

section \<open>Lookup helpers (hirezapi/utils.py)\<close>

text \<open>\<open>attr.replace('__', '.')\<close>: non-overlapping occurrences, left to right.\<close>

fun replace_dunder :: "string \<Rightarrow> string" where
  "replace_dunder (a # b # cs) =
     (if a = CHR ''_'' \<and> b = CHR ''_'' then CHR ''.'' # replace_dunder cs
      else a # replace_dunder (b # cs))"
| "replace_dunder cs = cs"

text \<open>\<open>str.split('.')\<close>, as \<open>operator.attrgetter\<close> applies it to its dotted path.\<close>

fun split_dot :: "string \<Rightarrow> string list" where
  "split_dot [] = [[]]"
| "split_dot (c # cs) =
     (if c = CHR ''.'' then [] # split_dot cs
      else (case split_dot cs of w # ws \<Rightarrow> (c # w) # ws | [] \<Rightarrow> [[c]]))"

text \<open>
  \<open>None\<close>, booleans, integers and strings have attributes of their own (\<open>int.real\<close>,
  \<open>str.upper\<close>, ...), given by Python's builtin types. What they answer is a parameter
  of every function that reads attributes: \<open>bl v attr\<close> is \<open>getattr(v, attr)\<close> for a scalar
  \<open>v\<close>.
\<close>

type_synonym builtin_lookup = "pyval \<Rightarrow> string \<Rightarrow> error + pyval"

definition getattr :: "builtin_lookup \<Rightarrow> pyval \<Rightarrow> string \<Rightarrow> error + pyval" where
  "getattr bl obj attr =
     (case obj of
        PObj _ attrs \<Rightarrow> (case map_of attrs attr of Some v \<Rightarrow> Inr v | None \<Rightarrow> Inl AttributeError)
      | _ \<Rightarrow> bl obj attr)"

text \<open>
  \<open>attrgetter(path)\<close> is represented by the list of names of the path; calling the getter
  on an object reads the names one after another.
\<close>

type_synonym getter = "string list"

definition attrgetter :: "string \<Rightarrow> getter" where
  "attrgetter path = split_dot path"

fun call_getter :: "builtin_lookup \<Rightarrow> getter \<Rightarrow> pyval \<Rightarrow> error + pyval" where
  "call_getter bl [] obj = Inr obj"
| "call_getter bl (n # ns) obj =
     (case getattr bl obj n of Inl e \<Rightarrow> Inl e | Inr v \<Rightarrow> call_getter bl ns v)"

text \<open>
  The keyword arguments \<open>**attrs\<close> are a dict: an association list with distinct keys, in
  the order the caller wrote them. \<open>attrs.pop()\<close> is \<open>dict.pop\<close> called without a key, which
  Python rejects with \<open>TypeError\<close> whatever the dict holds.
\<close>

type_synonym kwargs = "(string \<times> pyval) list"

definition dict_pop_no_key :: "kwargs \<Rightarrow> error + (string \<times> pyval)" where
  "dict_pop_no_key attrs = Inl TypeError"

text \<open>The loop of the one-attribute branch (lines 16 to 19).\<close>

fun get_single ::
  "builtin_lookup \<Rightarrow> getter \<Rightarrow> pyval \<Rightarrow> pyval list \<Rightarrow> error + pyval option" where
  "get_single bl g val [] = Inr None"
| "get_single bl g val (element # rest) =
     (case call_getter bl g element of
        Inl e \<Rightarrow> Inl e
      | Inr v \<Rightarrow> if py_eq v val then Inr (Some element) else get_single bl g val rest)"

text \<open>
  The inner \<open>for ... else\<close> of the general branch (lines 22 to 26): \<open>Inr False\<close> is the
  \<open>break\<close>, \<open>Inr True\<close> the \<open>else\<close> clause reached when no getter disagreed.
\<close>

fun all_getters_agree ::
  "builtin_lookup \<Rightarrow> (getter \<times> pyval) list \<Rightarrow> pyval \<Rightarrow> error + bool" where
  "all_getters_agree bl [] element = Inr True"
| "all_getters_agree bl ((g, val) # gs) element =
     (case call_getter bl g element of
        Inl e \<Rightarrow> Inl e
      | Inr v \<Rightarrow> if py_ne v val then Inr False else all_getters_agree bl gs element)"

fun get_multi ::
  "builtin_lookup \<Rightarrow> (getter \<times> pyval) list \<Rightarrow> pyval list \<Rightarrow> error + pyval option" where
  "get_multi bl getters [] = Inr None"
| "get_multi bl getters (element # rest) =
     (case all_getters_agree bl getters element of
        Inl e \<Rightarrow> Inl e
      | Inr True \<Rightarrow> Inr (Some element)
      | Inr False \<Rightarrow> get_multi bl getters rest)"

definition get :: "builtin_lookup \<Rightarrow> pyval list \<Rightarrow> kwargs \<Rightarrow> error + pyval option" where
  "get bl iterable attrs =
     (if length attrs = 1 then
        (case dict_pop_no_key attrs of
           Inl e \<Rightarrow> Inl e
         | Inr (attr, val) \<Rightarrow> get_single bl (attrgetter (replace_dunder attr)) val iterable)
      else
        get_multi bl (map (\<lambda>(attr, val). (attrgetter (replace_dunder attr), val)) attrs)
          iterable)"

text \<open>\<open>isinstance(v, int)\<close> holds for \<open>bool\<close> too, a subclass of \<open>int\<close>.\<close>

fun isinstance_int :: "pyval \<Rightarrow> bool" where
  "isinstance_int (PInt _) = True"
| "isinstance_int (PBool _) = True"
| "isinstance_int _ = False"

fun isinstance_str :: "pyval \<Rightarrow> bool" where
  "isinstance_str (PStr _) = True"
| "isinstance_str _ = False"

text \<open>A function body that ends without \<open>return\<close> returns \<open>None\<close>.\<close>

definition get_name_or_id ::
  "builtin_lookup \<Rightarrow> pyval list \<Rightarrow> pyval \<Rightarrow> error + pyval option" where
  "get_name_or_id bl iterable name_or_id =
     (if isinstance_int name_or_id then get bl iterable [(''id'', name_or_id)]
      else if isinstance_str name_or_id then get bl iterable [(''name'', name_or_id)]
      else Inr None)"

section \<open>Decoded responses\<close>

text \<open>
  The endpoint returns decoded JSON: a list of records (dicts). Numbers with a fractional
  part do not occur in the fields read here and are not modelled.
\<close>

datatype json =
    JNull
  | JBool bool
  | JInt int
  | JStr string
  | JList "json list"
  | JObj "(string \<times> json) list"

type_synonym jrecord = "(string \<times> json) list"
type_synonym response = "jrecord list"

text \<open>Truth value of a decoded value, as \<open>if v:\<close> tests it.\<close>

fun truthy :: "json \<Rightarrow> bool" where
  "truthy JNull = False"
| "truthy (JBool b) = b"
| "truthy (JInt i) = (i \<noteq> 0)"
| "truthy (JStr s) = (s \<noteq> [])"
| "truthy (JList xs) = (xs \<noteq> [])"
| "truthy (JObj kvs) = (kvs \<noteq> [])"

text \<open>\<open>d[key]\<close> on a dict raises \<open>KeyError\<close> for a missing key.\<close>

definition getitem :: "jrecord \<Rightarrow> string \<Rightarrow> error + json" where
  "getitem d key = (case map_of d key of Some v \<Rightarrow> Inr v | None \<Rightarrow> Inl KeyError)"

text \<open>\<open>v[key]\<close> with a string key on a decoded value that need not be a dict.\<close>

fun subscript :: "json \<Rightarrow> string \<Rightarrow> error + json" where
  "subscript (JObj d) key = getitem d key"
| "subscript _ key = Inl TypeError"

text \<open>\<open>v == n\<close> for a decoded value and an \<open>int\<close>.\<close>

fun json_eq_int :: "json \<Rightarrow> int \<Rightarrow> bool" where
  "json_eq_int (JInt i) n = (i = n)"
| "json_eq_int (JBool b) n = ((if b then 1 else 0) = n)"
| "json_eq_int _ n = False"

text \<open>
  \<open>int(v)\<close>. For a string: surrounding whitespace (tab, line feed, vertical tab, form feed,
  carriage return, space) is dropped, then an optional sign and decimal digits follow,
  single underscores allowed between digits (ASCII only).
\<close>

definition is_digit :: "char \<Rightarrow> bool" where
  "is_digit c = (48 \<le> (of_char c :: nat) \<and> (of_char c :: nat) \<le> 57)"

definition is_space :: "char \<Rightarrow> bool" where
  "is_space c = ((of_char c :: nat) \<in> {9, 10, 11, 12, 13, 32})"

fun digits_ok :: "string \<Rightarrow> bool" where
  "digits_ok [] = False"
| "digits_ok [c] = is_digit c"
| "digits_ok (c # d # cs) =
     (is_digit c \<and> (if d = CHR ''_'' then digits_ok cs else digits_ok (d # cs)))"

fun digits_value :: "nat \<Rightarrow> string \<Rightarrow> nat" where
  "digits_value acc [] = acc"
| "digits_value acc (c # cs) =
     (if c = CHR ''_'' then digits_value acc cs
      else digits_value (10 * acc + (of_char c - 48)) cs)"

definition strip :: "string \<Rightarrow> string" where
  "strip s = rev (dropWhile is_space (rev (dropWhile is_space s)))"

definition int_of_str :: "string \<Rightarrow> error + int" where
  "int_of_str s =
     (let t = strip s;
          neg = (t \<noteq> [] \<and> hd t = CHR ''-'');
          body = (if t \<noteq> [] \<and> (hd t = CHR ''-'' \<or> hd t = CHR ''+'') then tl t else t)
      in if digits_ok body
         then Inr (if neg then - int (digits_value 0 body) else int (digits_value 0 body))
         else Inl ValueError)"

fun py_int :: "json \<Rightarrow> error + int" where
  "py_int (JInt i) = Inr i"
| "py_int (JBool b) = Inr (if b then 1 else 0)"
| "py_int (JStr s) = int_of_str s"
| "py_int _ = Inl TypeError"

text \<open>\<open>isinstance(v, str) and v.isdecimal()\<close> (ASCII digits, at least one).\<close>

fun is_decimal_str :: "json \<Rightarrow> bool" where
  "is_decimal_str (JStr s) = (s \<noteq> [] \<and> list_all is_digit s)"
| "is_decimal_str _ = False"

text \<open>A list comprehension whose element expression may raise stops at the first raise.\<close>

fun map_raise :: "('a \<Rightarrow> error + 'b) \<Rightarrow> 'a list \<Rightarrow> error + 'b list" where
  "map_raise f [] = Inr []"
| "map_raise f (x # xs) =
     (case f x of
        Inl e \<Rightarrow> Inl e
      | Inr y \<Rightarrow> (case map_raise f xs of Inl e \<Rightarrow> Inl e | Inr ys \<Rightarrow> Inr (y # ys)))"

section \<open>Server status object (hirezapi/utils.py)\<close>

text \<open>
  \<open>ServerStatus\<close> sets its attributes by name with \<open>setattr\<close>, so the object is its attribute
  dictionary: \<open>all_up\<close> and \<open>limited_access\<close> hold flags, every environment or platform name
  holds a status dict.
\<close>

record env_status =
  st_limited_access :: json
  st_up :: bool
  st_version :: json

datatype status_attr = Flag bool | Status env_status

type_synonym server_status = "string \<rightharpoonup> status_attr"

text \<open>\<open>setattr(obj, name, value)\<close> rejects a name that is not a string.\<close>

fun setattr :: "server_status \<Rightarrow> json \<Rightarrow> status_attr \<Rightarrow> error + server_status" where
  "setattr obj (JStr attr) v = Inr (obj(attr \<mapsto> v))"
| "setattr obj _ v = Inl TypeError"

definition status_step :: "server_status \<Rightarrow> jrecord \<Rightarrow> error + server_status" where
  "status_step self s =
     (case getitem s ''limited_access'' of Inl e \<Rightarrow> Inl e | Inr la \<Rightarrow>
     (case getitem s ''status'' of Inl e \<Rightarrow> Inl e | Inr st \<Rightarrow>
     (case getitem s ''version'' of Inl e \<Rightarrow> Inl e | Inr ver \<Rightarrow>
     (let status = \<lparr>st_limited_access = la, st_up = (st = JStr ''UP''), st_version = ver\<rparr> in
     (case getitem s ''environment'' of Inl e \<Rightarrow> Inl e | Inr environment \<Rightarrow>
       (if environment \<noteq> JStr ''live'' then setattr self environment (Status status)
        else
          (let self1 = (if \<not> st_up status then self(''all_up'' \<mapsto> Flag False) else self);
               self2 = (if truthy (st_limited_access status)
                        then self1(''limited_access'' \<mapsto> Flag True) else self1)
           in (case getitem s ''platform'' of
                 Inl e \<Rightarrow> Inl e
               | Inr platform \<Rightarrow> setattr self2 platform (Status status)))))))))"

fun status_loop :: "server_status \<Rightarrow> response \<Rightarrow> error + server_status" where
  "status_loop self [] = Inr self"
| "status_loop self (s # rest) =
     (case status_step self s of Inl e \<Rightarrow> Inl e | Inr self' \<Rightarrow> status_loop self' rest)"

definition ServerStatus :: "response \<Rightarrow> error + server_status" where
  "ServerStatus status_data =
     status_loop [''all_up'' \<mapsto> Flag True, ''limited_access'' \<mapsto> Flag False] status_data"

section \<open>The API client (hirezapi/api.py)\<close>

text \<open>
  Timestamps (\<open>datetime\<close>) and durations (\<open>timedelta\<close>) are counted in microseconds, the
  resolution of both Python types. A \<open>Language\<close> member is represented by its \<open>value\<close>.
\<close>

type_synonym time = int
type_synonym language = int

definition minutes :: "int \<Rightarrow> time" where
  "minutes n = n * 60000000"

definition hours :: "int \<Rightarrow> time" where
  "hours n = n * 3600000000"

text \<open>
  The endpoint (\<open>endpoint.py\<close>) and the system clock are outside the client. They are
  parameters: \<open>'w\<close> is the state of the outside world, \<open>fetch\<close> performs one remote call in
  it (returning the decoded records or raising) and \<open>utcnow\<close> reads its clock.
\<close>

record 'w transport =
  fetch :: "'w \<Rightarrow> string \<Rightarrow> json list \<Rightarrow> (error + response) \<times> 'w"
  utcnow :: "'w \<Rightarrow> time"

text \<open>
  \<open>DataCache\<close> (\<open>cache.py\<close>) is used through three methods only, taken as parameters over
  the cache object \<open>'c\<close>: \<open>_needs_refreshing(language)\<close>, \<open>cache[language] = (champions,
  items)\<close>, which builds and stores the \<open>ChampionInfo\<close> \<open>'b\<close> or raises and leaves the cache
  as it was, and \<open>cache[language]\<close>, which never raises.
\<close>

record ('w, 'c, 'b) data_cache =
  needs_refreshing :: "'w \<Rightarrow> 'c \<Rightarrow> language \<Rightarrow> bool"
  setitem :: "'w \<Rightarrow> 'c \<Rightarrow> language \<Rightarrow> response \<times> response \<Rightarrow> error + 'c"
  lookup :: "'c \<Rightarrow> language \<Rightarrow> 'b option"

text \<open>
  The client object: the cached server status with its expiry time, the data cache, the
  outside world it talks to, and the log of requests it has issued so far.
\<close>

record ('w, 'c) api =
  server_status :: "(server_status \<times> time) option"
  cache :: 'c
  world :: 'w
  calls :: "(string \<times> json list) list"

text \<open>\<open>await self.request(method_name, args)\<close>: one remote call, logged.\<close>

definition request ::
  "'w transport \<Rightarrow> string \<Rightarrow> json list \<Rightarrow> ('w, 'c) api \<Rightarrow> (error + response) \<times> ('w, 'c) api" where
  "request tr method_name args st =
     (case fetch tr (world st) method_name args of
        (r, w') \<Rightarrow> (r, st\<lparr>world := w', calls := calls st @ [(method_name, args)]\<rparr>))"

text \<open>The last two lines of \<open>get_server_status\<close>: the cached status, or \<open>None\<close>.\<close>

definition cached_status :: "('w, 'c) api \<Rightarrow> server_status option" where
  "cached_status st = (case server_status st of None \<Rightarrow> None | Some (s, _) \<Rightarrow> Some s)"

definition status_stale :: "time \<Rightarrow> ('w, 'c) api \<Rightarrow> bool" where
  "status_stale now st = (case server_status st of None \<Rightarrow> True | Some (_, expires) \<Rightarrow> now \<ge> expires)"

definition get_server_status ::
  "'w transport \<Rightarrow> bool \<Rightarrow> ('w, 'c) api \<Rightarrow> (error + server_status option) \<times> ('w, 'c) api" where
  "get_server_status tr force_refresh st =
     (let now = utcnow tr (world st) in
      if status_stale now st \<or> force_refresh then
        (case request tr ''gethirezserverstatus'' [] st of
           (Inl e, st1) \<Rightarrow> (Inl e, st1)
         | (Inr response, st1) \<Rightarrow>
             if response \<noteq> [] then
               (case ServerStatus response of
                  Inl e \<Rightarrow> (Inl e, st1)
                | Inr s \<Rightarrow>
                    (let st2 = st1\<lparr>server_status := Some (s, now + minutes 1)\<rparr>
                     in (Inr (cached_status st2), st2)))
             else (Inr (cached_status st1), st1))
      else (Inr (cached_status st), st))"

definition get_champion_info ::
  "'w transport \<Rightarrow> ('w, 'c, 'b) data_cache \<Rightarrow> language \<Rightarrow> bool \<Rightarrow> ('w, 'c) api
     \<Rightarrow> (error + 'b option) \<times> ('w, 'c) api" where
  "get_champion_info tr dc language force_refresh st =
     (if needs_refreshing dc (world st) (cache st) language \<or> force_refresh then
        (case request tr ''getgods'' [JInt language] st of
           (Inl e, st1) \<Rightarrow> (Inl e, st1)
         | (Inr champions_response, st1) \<Rightarrow>
             (case request tr ''getitems'' [JInt language] st1 of
                (Inl e, st2) \<Rightarrow> (Inl e, st2)
              | (Inr items_response, st2) \<Rightarrow>
                  if champions_response \<noteq> [] \<and> items_response \<noteq> [] then
                    (case setitem dc (world st2) (cache st2) language
                            (champions_response, items_response) of
                       Inl e \<Rightarrow> (Inl e, st2)
                     | Inr c' \<Rightarrow> (Inr (lookup dc c' language), st2\<lparr>cache := c'\<rparr>))
                  else (Inr (lookup dc (cache st2) language), st2)))
      else (Inr (lookup dc (cache st) language), st))"

text \<open>
  Modelled from the spec: \<open>DataCache\<close> of \<open>cache.py\<close>, which is not among the sources. A
  map from the language to the entry \<open>(value, populated_at)\<close>; an entry is stale when it is
  absent or twelve hours old; a store replaces the entry as a whole with the new bundle and
  the current time; a read returns the entry's value or \<open>None\<close>. \<open>build\<close> stands for the
  construction of the bundle from the two responses.
\<close>

definition spec_cache ::
  "('w \<Rightarrow> time) \<Rightarrow> (language \<Rightarrow> response \<Rightarrow> response \<Rightarrow> 'b)
     \<Rightarrow> ('w, language \<rightharpoonup> ('b \<times> time), 'b) data_cache" where
  "spec_cache clock build =
     \<lparr>needs_refreshing = (\<lambda>w c l. case c l of None \<Rightarrow> True
                                     | Some (_, populated_at) \<Rightarrow> clock w - populated_at \<ge> hours 12),
      setitem = (\<lambda>w c l (champions, items). Inr (c(l \<mapsto> (build l champions items, clock w)))),
      lookup = (\<lambda>c l. case c l of None \<Rightarrow> None | Some (v, _) \<Rightarrow> Some v)\<rparr>"

section \<open>Players (arez/player.py)\<close>

text \<open>
  The attributes every player object has. \<open>'p\<close> stands for the members of the
  enumerations of \<open>enumerations.py\<close> (\<open>Platform\<close>, \<open>Region\<close>).
\<close>

record 'p partial_player =
  id' :: int
  name :: json
  platform :: 'p

text \<open>
  The attributes \<open>Player.__init__\<close> adds, in the order it sets them. \<open>'x\<close> stands for the
  objects built by other modules: \<open>datetime\<close>, \<open>Duration\<close>, \<open>Stats\<close>, \<open>RankedStats\<close>. The
  attributes copied from the record keep the decoded value.
\<close>

record ('p, 'x) player_fields =
  active_player :: "'p partial_player option"
  merged_players :: "'p partial_player list"
  created_at :: "'x option"
  last_login :: "'x option"
  level :: json
  playtime :: 'x
  champion_count :: json
  region :: 'p
  total_achievements :: json
  total_exp :: json
  hz_gamer_tag :: json
  hz_player_name :: json
  casual :: 'x
  ranked_keyboard :: 'x
  ranked_controller :: 'x

text \<open>An object is an instance of exactly one of the two classes.\<close>

datatype ('p, 'x) player =
    PartialPlayer "'p partial_player"
  | Player "'p partial_player" "('p, 'x) player_fields"

datatype pclass = PartialPlayerC | PlayerC

fun class_of :: "('p, 'x) player \<Rightarrow> pclass" where
  "class_of (PartialPlayer _) = PartialPlayerC"
| "class_of (Player _ _) = PlayerC"

fun base :: "('p, 'x) player \<Rightarrow> 'p partial_player" where
  "base (PartialPlayer b) = b"
| "base (Player b _) = b"

text \<open>\<open>class Player(PartialPlayer)\<close>: the subclass relation.\<close>

fun issubclass :: "pclass \<Rightarrow> pclass \<Rightarrow> bool" where
  "issubclass PlayerC PartialPlayerC = True"
| "issubclass c d = (c = d)"

text \<open>The right operand of a comparison: a player object or any other Python value.\<close>

datatype ('p, 'x) operand = PlayerVal "('p, 'x) player" | OtherVal pyval

fun isinstance :: "('p, 'x) operand \<Rightarrow> pclass \<Rightarrow> bool" where
  "isinstance (PlayerVal p) c = issubclass (class_of p) c"
| "isinstance (OtherVal _) c = False"

text \<open>
  What the constructors call in other modules and in the standard library, as parameters:
  \<open>platform_of v\<close> is \<open>Platform.get(v) or Platform(0)\<close>, \<open>region_of v\<close> is
  \<open>Region.get(v) or Region(0)\<close>, \<open>strptime v\<close> is
  \<open>datetime.strptime(v, "%m/%d/%Y %I:%M:%S %p")\<close>, \<open>Duration v\<close> is \<open>Duration(hours=v)\<close>,
  \<open>Stats d\<close> is \<open>Stats(d)\<close> and \<open>RankedStats t v\<close> is \<open>RankedStats(t, v)\<close>. The last four
  may raise.
\<close>

record ('p, 'x) player_ops =
  platform_of :: "json \<Rightarrow> 'p"
  region_of :: "json \<Rightarrow> 'p"
  strptime :: "json \<Rightarrow> error + 'x"
  Duration :: "json \<Rightarrow> error + 'x"
  Stats :: "jrecord \<Rightarrow> error + 'x"
  RankedStats :: "string \<Rightarrow> json \<Rightarrow> error + 'x"

text \<open>
  \<open>convert_timestamp\<close> of the package's \<open>utils\<close> module (\<open>hirezapi/utils.py\<close>, lines 8 to
  10): an empty timestamp gives \<open>None\<close>.
\<close>

definition convert_timestamp :: "('p, 'x) player_ops \<Rightarrow> json \<Rightarrow> error + 'x option" where
  "convert_timestamp po timestamp =
     (if truthy timestamp
      then (case strptime po timestamp of Inl e \<Rightarrow> Inl e | Inr d \<Rightarrow> Inr (Some d))
      else Inr None)"

text \<open>
  Lines 50 and 51 of \<open>PartialPlayer.__init__\<close>: a platform given as a decimal string is
  turned into an integer.
\<close>

definition platform_key :: "json \<Rightarrow> error + json" where
  "platform_key platform_arg =
     (if is_decimal_str platform_arg
      then (case py_int platform_arg of Inl e \<Rightarrow> Inl e | Inr n \<Rightarrow> Inr (JInt n))
      else Inr platform_arg)"

text \<open>\<open>PartialPlayer.__init__(api, id=..., name=..., platform=...)\<close>.\<close>

definition PartialPlayer_init ::
  "('p, 'x) player_ops \<Rightarrow> json \<Rightarrow> json \<Rightarrow> json \<Rightarrow> error + 'p partial_player" where
  "PartialPlayer_init po id_arg name_arg platform_arg =
     (case py_int id_arg of
        Inl e \<Rightarrow> Inl e
      | Inr i \<Rightarrow>
          (case platform_key platform_arg of
             Inl e \<Rightarrow> Inl e
           | Inr key \<Rightarrow> Inr \<lparr>id' = i, name = name_arg, platform = platform_of po key\<rparr>))"

text \<open>The defaults of the keyword arguments: \<open>name=''\<close> and \<open>platform=0\<close>.\<close>

definition default_name :: json where
  "default_name = JStr []"

definition default_platform :: json where
  "default_platform = JInt 0"

text \<open>
  The loop over \<open>player_data["MergedPlayers"]\<close> (lines 295 to 299), entered when the value
  is truthy. A truthy value that is not a list either cannot be iterated or yields
  elements that cannot be subscripted with a string: \<open>TypeError\<close> both ways.
\<close>

definition merged_player ::
  "('p, 'x) player_ops \<Rightarrow> json \<Rightarrow> error + 'p partial_player" where
  "merged_player po p =
     (case subscript p ''playerId'' of Inl e \<Rightarrow> Inl e | Inr pid \<Rightarrow>
     (case subscript p ''portalId'' of Inl e \<Rightarrow> Inl e | Inr portal \<Rightarrow>
        PartialPlayer_init po pid default_name portal))"

fun merged_loop :: "('p, 'x) player_ops \<Rightarrow> json \<Rightarrow> error + 'p partial_player list" where
  "merged_loop po (JList ps) = map_raise (merged_player po) ps"
| "merged_loop po _ = Inl TypeError"

text \<open>
  \<open>Player.__init__(api, player_data)\<close>, line by line: every \<open>player_data[...]\<close> is a
  subscript that raises \<open>KeyError\<close> when the record has no such field.
\<close>

definition Player_init ::
  "('p, 'x) player_ops \<Rightarrow> jrecord \<Rightarrow> error + ('p, 'x) player" where
  "Player_init po player_data =
     (case getitem player_data ''Id'' of Inl e \<Rightarrow> Inl e | Inr id_arg \<Rightarrow>
     (case getitem player_data ''Name'' of Inl e \<Rightarrow> Inl e | Inr name_arg \<Rightarrow>
     (case getitem player_data ''Platform'' of Inl e \<Rightarrow> Inl e | Inr platform_arg \<Rightarrow>
     (case PartialPlayer_init po id_arg name_arg platform_arg of Inl e \<Rightarrow> Inl e | Inr self \<Rightarrow>
     (case getitem player_data ''ActivePlayerId'' of Inl e \<Rightarrow> Inl e | Inr active_id \<Rightarrow>
     (case (if \<not> json_eq_int active_id (id' self)
            then (case PartialPlayer_init po active_id default_name default_platform of
                    Inl e \<Rightarrow> Inl e | Inr a \<Rightarrow> Inr (Some a))
            else Inr None) of Inl e \<Rightarrow> Inl e | Inr active \<Rightarrow>
     (case getitem player_data ''MergedPlayers'' of Inl e \<Rightarrow> Inl e | Inr merged_arg \<Rightarrow>
     (case (if truthy merged_arg then merged_loop po merged_arg else Inr []) of
        Inl e \<Rightarrow> Inl e | Inr merged \<Rightarrow>
     (case getitem player_data ''Created_Datetime'' of Inl e \<Rightarrow> Inl e | Inr created_arg \<Rightarrow>
     (case convert_timestamp po created_arg of Inl e \<Rightarrow> Inl e | Inr created \<Rightarrow>
     (case getitem player_data ''Last_Login_Datetime'' of Inl e \<Rightarrow> Inl e | Inr login_arg \<Rightarrow>
     (case convert_timestamp po login_arg of Inl e \<Rightarrow> Inl e | Inr login \<Rightarrow>
     (case getitem player_data ''Level'' of Inl e \<Rightarrow> Inl e | Inr level_arg \<Rightarrow>
     (case getitem player_data ''HoursPlayed'' of Inl e \<Rightarrow> Inl e | Inr hours_arg \<Rightarrow>
     (case Duration po hours_arg of Inl e \<Rightarrow> Inl e | Inr played \<Rightarrow>
     (case getitem player_data ''MasteryLevel'' of Inl e \<Rightarrow> Inl e | Inr mastery_arg \<Rightarrow>
     (case getitem player_data ''Region'' of Inl e \<Rightarrow> Inl e | Inr region_arg \<Rightarrow>
     (case getitem player_data ''Total_Achievements'' of Inl e \<Rightarrow> Inl e | Inr achievements_arg \<Rightarrow>
     (case getitem player_data ''Total_Worshippers'' of Inl e \<Rightarrow> Inl e | Inr worshippers_arg \<Rightarrow>
     (case getitem player_data ''hz_gamer_tag'' of Inl e \<Rightarrow> Inl e | Inr tag_arg \<Rightarrow>
     (case getitem player_data ''hz_player_name'' of Inl e \<Rightarrow> Inl e | Inr hz_name_arg \<Rightarrow>
     (case Stats po player_data of Inl e \<Rightarrow> Inl e | Inr stats \<Rightarrow>
     (case getitem player_data ''RankedKBM'' of Inl e \<Rightarrow> Inl e | Inr kbm_arg \<Rightarrow>
     (case RankedStats po ''Keyboard'' kbm_arg of Inl e \<Rightarrow> Inl e | Inr keyboard \<Rightarrow>
     (case getitem player_data ''RankedController'' of Inl e \<Rightarrow> Inl e | Inr pad_arg \<Rightarrow>
     (case RankedStats po ''Controller'' pad_arg of Inl e \<Rightarrow> Inl e | Inr controller \<Rightarrow>
        Inr (Player self
               \<lparr>active_player = active, merged_players = merged,
                created_at = created, last_login = login, level = level_arg,
                playtime = played, champion_count = mastery_arg,
                region = region_of po region_arg,
                total_achievements = achievements_arg, total_exp = worshippers_arg,
                hz_gamer_tag = tag_arg, hz_player_name = hz_name_arg,
                casual = stats, ranked_keyboard = keyboard,
                ranked_controller = controller\<rparr>)))))))))))))))))))))))))))"

text \<open>The property \<open>PartialPlayer.private\<close>.\<close>

definition private_prop :: "('p, 'x) player \<Rightarrow> bool" where
  "private_prop self = (id' (base self) = 0)"

text \<open>\<open>PartialPlayer.__eq__(self, other)\<close>, inherited unchanged by \<open>Player\<close>.\<close>

definition eq_method :: "('p, 'x) player \<Rightarrow> ('p, 'x) operand \<Rightarrow> error + bool" where
  "eq_method self other =
     (if \<not> isinstance other (class_of self) then Inl AssertionError
      else
        (case other of
           PlayerVal p \<Rightarrow>
             Inr (id' (base self) \<noteq> 0 \<and> id' (base p) \<noteq> 0 \<and> id' (base self) = id' (base p))
         | OtherVal v \<Rightarrow> Inl AttributeError))"

text \<open>
  The expression \<open>a == b\<close> with a player on the left. Python calls the right operand's
  \<open>__eq__\<close> first when its class is a proper subclass of the left operand's class, and
  \<open>a.__eq__(b)\<close> otherwise; \<open>__eq__\<close> above never returns \<open>NotImplemented\<close>, so the first
  call decides.
\<close>

fun eq_op :: "('p, 'x) player \<Rightarrow> ('p, 'x) operand \<Rightarrow> error + bool" where
  "eq_op a (PlayerVal b) =
     (if class_of b \<noteq> class_of a \<and> issubclass (class_of b) (class_of a)
      then eq_method b (PlayerVal a)
      else eq_method a (PlayerVal b))"
| "eq_op a (OtherVal v) = eq_method a (OtherVal v)"

text \<open>\<open>PartialPlayer._expand\<close>.\<close>

definition expand ::
  "'w transport \<Rightarrow> ('p, 'x) player_ops \<Rightarrow> ('p, 'x) player \<Rightarrow> ('w, 'c) api
     \<Rightarrow> (error + ('p, 'x) player option) \<times> ('w, 'c) api" where
  "expand tr po self st =
     (if private_prop self then (Inl Private, st)
      else
        (case request tr ''getplayer'' [JInt (id' (base self))] st of
           (Inl e, st1) \<Rightarrow> (Inl e, st1)
         | (Inr response, st1) \<Rightarrow>
             (case response of
                [] \<Rightarrow> (Inr None, st1)
              | r # _ \<Rightarrow>
                  (case Player_init po r of
                     Inl e \<Rightarrow> (Inl e, st1)
                   | Inr p \<Rightarrow> (Inr (Some p), st1)))))"

text \<open>\<open>PartialPlayer.get_friends\<close>.\<close>

definition friend_of :: "('p, 'x) player_ops \<Rightarrow> jrecord \<Rightarrow> error + ('p, 'x) player" where
  "friend_of po p =
     (case getitem p ''player_id'' of Inl e \<Rightarrow> Inl e | Inr pid \<Rightarrow>
     (case getitem p ''name'' of Inl e \<Rightarrow> Inl e | Inr nm \<Rightarrow>
     (case PartialPlayer_init po pid nm default_platform of
        Inl e \<Rightarrow> Inl e | Inr b \<Rightarrow> Inr (PartialPlayer b))))"

definition get_friends ::
  "'w transport \<Rightarrow> ('p, 'x) player_ops \<Rightarrow> ('p, 'x) player \<Rightarrow> ('w, 'c) api
     \<Rightarrow> (error + ('p, 'x) player list) \<times> ('w, 'c) api" where
  "get_friends tr po self st =
     (if private_prop self then (Inl Private, st)
      else
        (case request tr ''getfriends'' [JInt (id' (base self))] st of
           (Inl e, st1) \<Rightarrow> (Inl e, st1)
         | (Inr response, st1) \<Rightarrow> (map_raise (friend_of po) response, st1)))"

text \<open>
  \<open>PartialPlayer.get_loadouts\<close> and \<open>PartialPlayer.get_match_history\<close>. Both first call
  the client's \<open>get_champion_info(language)\<close>, with \<open>force_refresh\<close> left at \<open>False\<close>. The
  constructors \<open>Loadout(self, language, l)\<close> (\<open>items.py\<close>) and
  \<open>PartialMatch(self, language, m)\<close> (\<open>match.py\<close>) are parameters; they may read the data
  cache and may raise.
\<close>

type_synonym ('c, 'p, 'x, 'a) constructor =
  "'c \<Rightarrow> ('p, 'x) player \<Rightarrow> language \<Rightarrow> jrecord \<Rightarrow> error + 'a"

definition get_loadouts ::
  "'w transport \<Rightarrow> ('w, 'c, 'b) data_cache \<Rightarrow> ('c, 'p, 'x, 'l) constructor
     \<Rightarrow> ('p, 'x) player \<Rightarrow> language \<Rightarrow> ('w, 'c) api \<Rightarrow> (error + 'l list) \<times> ('w, 'c) api" where
  "get_loadouts tr dc Loadout self language st =
     (if private_prop self then (Inl Private, st)
      else
        (case get_champion_info tr dc language False st of
           (Inl e, st1) \<Rightarrow> (Inl e, st1)
         | (Inr _, st1) \<Rightarrow>
             (case request tr ''getplayerloadouts'' [JInt (id' (base self)), JInt language] st1 of
                (Inl e, st2) \<Rightarrow> (Inl e, st2)
              | (Inr response, st2) \<Rightarrow>
                  (case response of
                     [] \<Rightarrow> (Inr [], st2)
                   | r # _ \<Rightarrow>
                       (case getitem r ''playerId'' of
                          Inl e \<Rightarrow> (Inl e, st2)
                        | Inr v \<Rightarrow>
                            if \<not> truthy v then (Inr [], st2)
                            else (map_raise (Loadout (cache st2) self language) response, st2))))))"

definition get_match_history ::
  "'w transport \<Rightarrow> ('w, 'c, 'b) data_cache \<Rightarrow> ('c, 'p, 'x, 'm) constructor
     \<Rightarrow> ('p, 'x) player \<Rightarrow> language \<Rightarrow> ('w, 'c) api \<Rightarrow> (error + 'm list) \<times> ('w, 'c) api" where
  "get_match_history tr dc PartialMatch self language st =
     (if private_prop self then (Inl Private, st)
      else
        (case get_champion_info tr dc language False st of
           (Inl e, st1) \<Rightarrow> (Inl e, st1)
         | (Inr _, st1) \<Rightarrow>
             (case request tr ''getmatchhistory'' [JInt (id' (base self))] st1 of
                (Inl e, st2) \<Rightarrow> (Inl e, st2)
              | (Inr response, st2) \<Rightarrow>
                  (case response of
                     [] \<Rightarrow> (Inr [], st2)
                   | r # _ \<Rightarrow>
                       (case getitem r ''ret_msg'' of
                          Inl e \<Rightarrow> (Inl e, st2)
                        | Inr v \<Rightarrow>
                            if truthy v then (Inr [], st2)
                            else (map_raise (PartialMatch (cache st2) self language) response,
                                  st2))))))"

section \<open>Test doubles\<close>

text \<open>
  Concrete collaborators for running the model: a world that is just the clock reading, an
  endpoint that answers each method name with a fixed outcome, enumeration members,
  timestamps, durations and statistics kept as the decoded values they are made from (of
  the right JSON type, or \<open>TypeError\<close>), and bundles and sub-entities kept as the records
  they are built from. \<open>no_scalar_lookup\<close> stands in for the builtin attribute lookup in
  runs that never ask a scalar for an attribute.
\<close>

definition answering :: "(string \<Rightarrow> error + response) \<Rightarrow> time transport" where
  "answering f = \<lparr>fetch = (\<lambda>w method_name args. (f method_name, w)), utcnow = (\<lambda>w. w)\<rparr>"

definition plain_ops :: "(json, json) player_ops" where
  "plain_ops =
     \<lparr>platform_of = (\<lambda>v. v),
      region_of = (\<lambda>v. v),
      strptime = (\<lambda>v. case v of JStr t \<Rightarrow> Inr (JStr t) | _ \<Rightarrow> Inl TypeError),
      Duration = (\<lambda>v. case v of JInt h \<Rightarrow> Inr (JInt h) | _ \<Rightarrow> Inl TypeError),
      Stats = (\<lambda>d. case getitem d ''Wins'' of Inl e \<Rightarrow> Inl e
                                           | Inr w \<Rightarrow> Inr (JObj [(''Wins'', w)])),
      RankedStats = (\<lambda>t v. case v of JObj d \<Rightarrow> Inr (JObj ((''type'', JStr t) # d))
                                       | _ \<Rightarrow> Inl TypeError)\<rparr>"

definition no_scalar_lookup :: builtin_lookup where
  "no_scalar_lookup v attr = Inl AttributeError"

type_synonym raw_entries = "language \<rightharpoonup> ((response \<times> response) \<times> time)"

definition raw_cache :: "(time, raw_entries, response \<times> response) data_cache" where
  "raw_cache = spec_cache (\<lambda>w. w) (\<lambda>l champions items. (champions, items))"

definition raw_constructor :: "(raw_entries, json, json, jrecord) constructor" where
  "raw_constructor c p l r = Inr r"

definition fresh_api :: "time \<Rightarrow> (time, raw_entries) api" where
  "fresh_api t = \<lparr>server_status = None, cache = Map.empty, world = t, calls = []\<rparr>"

definition champion :: jrecord where
  "champion = [(''id'', JInt 2205), (''Name'', JStr ''Androxus'')]"

definition item :: jrecord where
  "item = [(''ItemId'', JInt 11225), (''DeviceName'', JStr ''Defiance'')]"

definition live_pc :: jrecord where
  "live_pc = [(''limited_access'', JBool False), (''status'', JStr ''UP''),
              (''version'', JStr ''3.1''), (''environment'', JStr ''live''),
              (''platform'', JStr ''pc'')]"

definition live_pc_status :: server_status where
  "live_pc_status =
     [''all_up'' \<mapsto> Flag True, ''limited_access'' \<mapsto> Flag False,
      ''pc'' \<mapsto> Status \<lparr>st_limited_access = JBool False, st_up = True,
                              st_version = JStr ''3.1''\<rparr>]"

definition some_player :: "(json, json) player" where
  "some_player = PartialPlayer \<lparr>id' = 7, name = JStr ''Seven'', platform = JInt 1\<rparr>"

definition hidden_player :: "(json, json) player" where
  "hidden_player = PartialPlayer \<lparr>id' = 0, name = JStr [], platform = JInt 0\<rparr>"

definition full_player :: "int \<Rightarrow> (json, json) player" where
  "full_player i =
     Player \<lparr>id' = i, name = JStr ''Seven'', platform = JInt 1\<rparr>
            \<lparr>active_player = Some \<lparr>id' = 9, name = JStr [], platform = JInt 0\<rparr>,
             merged_players = [\<lparr>id' = 12, name = JStr [], platform = JInt 5\<rparr>],
             created_at = Some (JStr ''1/2/2019 3:04:05 PM''),
             last_login = None,
             level = JInt 30,
             playtime = JInt 100,
             champion_count = JInt 12,
             region = JStr ''Europe'',
             total_achievements = JInt 5,
             total_exp = JInt 1000,
             hz_gamer_tag = JNull,
             hz_player_name = JStr ''Seven'',
             casual = JObj [(''Wins'', JInt 3)],
             ranked_keyboard = JObj [(''type'', JStr ''Keyboard''), (''Tier'', JInt 10)],
             ranked_controller = JObj [(''type'', JStr ''Controller''), (''Tier'', JInt 0)]\<rparr>"

definition identity_fields :: jrecord where
  "identity_fields =
     [(''Id'', JInt 7), (''Name'', JStr ''Seven''), (''Platform'', JStr ''1''),
      (''ActivePlayerId'', JInt 9),
      (''MergedPlayers'', JList [JObj [(''playerId'', JStr ''12''), (''portalId'', JStr ''5'')]])]"

definition player_record :: jrecord where
  "player_record =
     identity_fields @
     [(''Created_Datetime'', JStr ''1/2/2019 3:04:05 PM''), (''Last_Login_Datetime'', JStr []),
      (''Level'', JInt 30), (''HoursPlayed'', JInt 100), (''MasteryLevel'', JInt 12),
      (''Region'', JStr ''Europe''), (''Total_Achievements'', JInt 5),
      (''Total_Worshippers'', JInt 1000), (''hz_gamer_tag'', JNull),
      (''hz_player_name'', JStr ''Seven''), (''Wins'', JInt 3),
      (''RankedKBM'', JObj [(''Tier'', JInt 10)]),
      (''RankedController'', JObj [(''Tier'', JInt 0)])]"

definition message_record :: jrecord where
  "message_record = [(''ret_msg'', JStr ''No data''), (''player_id'', JStr ''0''),
                     (''name'', JStr []), (''playerId'', JInt 7)]"

definition no_loadouts :: jrecord where
  "no_loadouts = [(''ret_msg'', JStr ''No Loadouts''), (''playerId'', JInt 0)]"

text \<open>
  Endpoints for the refresh scenarios, and a client whose caches were filled at time zero.
\<close>

definition items_down :: "time transport" where
  "items_down = answering (\<lambda>m. if m = ''getgods'' then Inr [champion] else Inl TransportError)"

definition items_empty :: "time transport" where
  "items_empty = answering (\<lambda>m. if m = ''getgods'' then Inr [champion] else Inr [])"

definition all_empty :: "time transport" where
  "all_empty = answering (\<lambda>m. Inr [])"

definition all_down :: "time transport" where
  "all_down = answering (\<lambda>m. Inl TransportError)"

definition healthy :: "time transport" where
  "healthy = answering (\<lambda>m. if m = ''gethirezserverstatus'' then Inr [live_pc]
                              else if m = ''getgods'' then Inr [champion]
                              else if m = ''getitems'' then Inr [item]
                              else if m = ''getplayer'' then Inr [player_record]
                              else if m = ''getplayerloadouts'' then Inr [no_loadouts]
                              else Inr [message_record])"

definition only_message :: "time transport" where
  "only_message = answering (\<lambda>m. Inr [message_record])"

definition identity_only :: "time transport" where
  "identity_only = answering (\<lambda>m. Inr [identity_fields])"

definition empty_record :: "time transport" where
  "empty_record = answering (\<lambda>m. Inr [[]])"

definition warm_api :: "time \<Rightarrow> (time, raw_entries) api" where
  "warm_api t =
     \<lparr>server_status = Some (live_pc_status, minutes 1),
      cache = [1 \<mapsto> (([champion], [item]), 0)],
      world = t,
      calls = [(''gethirezserverstatus'', [])]\<rparr>"

section \<open>Helper lemmas\<close>

lemma request_fetch:
  "fetch tr (world st) m args = (r, w') \<Longrightarrow>
   request tr m args st = (r, st\<lparr>world := w', calls := calls st @ [(m, args)]\<rparr>)"
  by (simp add: request_def)

lemma fetch_answering: "fetch (answering f) w m args = (f m, w)"
  by (simp add: answering_def)

lemma utcnow_answering: "utcnow (answering f) w = w"
  by (simp add: answering_def)

section \<open>The reference-data cache\<close>

text \<open>
  C1. A refresh of the champion information is all or nothing. Whatever the two fetches
  \<open>getgods\<close> and \<open>getitems\<close> answer, unless both return a non-empty response the data cache
  after the call is the cache before the call, and the call either raises or returns what
  the cache held before: nothing built from one successful fetch is stored or returned.
\<close>

theorem champion_info_atomic:
  assumes "fetch tr (world st) ''getgods'' [JInt language] = (rc, w1)"
    and "fetch tr w1 ''getitems'' [JInt language] = (ri, w2)"
    and "\<not> (\<exists>champions items.
               rc = Inr champions \<and> champions \<noteq> [] \<and> ri = Inr items \<and> items \<noteq> [])"
  shows "cache (snd (get_champion_info tr dc language force_refresh st)) = cache st
       \<and> (fst (get_champion_info tr dc language force_refresh st)
             = Inr (lookup dc (cache st) language)
          \<or> (\<exists>e. fst (get_champion_info tr dc language force_refresh st) = Inl e))"
  using assms
  by (cases rc; cases ri) (auto simp: get_champion_info_def request_fetch)

theorem champion_info_atomic_witness:
  "cache (snd (get_champion_info items_empty raw_cache 1 True (warm_api (hours 13))))
     = cache (warm_api (hours 13))
   \<and> fst (get_champion_info items_empty raw_cache 1 True (warm_api (hours 13)))
     = Inr (Some ([champion], [item]))
   \<and> cache (snd (get_champion_info items_down raw_cache 1 True (warm_api (hours 13))))
     = cache (warm_api (hours 13))
   \<and> fst (get_champion_info items_down raw_cache 1 True (warm_api (hours 13)))
     = Inl TransportError"
proof -
  have a: "fetch items_empty (world (warm_api (hours 13))) ''getgods'' [JInt 1]
             = (Inr [champion], hours 13)"
    by (simp add: items_empty_def fetch_answering warm_api_def)
  have b: "fetch items_empty (hours 13) ''getitems'' [JInt 1] = (Inr [], hours 13)"
    by (simp add: items_empty_def fetch_answering)
  have c: "\<not> (\<exists>champions items.
                 (Inr [champion] :: error + response) = Inr champions \<and> champions \<noteq> []
                 \<and> (Inr [] :: error + response) = Inr items \<and> items \<noteq> [])"
    by simp
  have a': "fetch items_down (world (warm_api (hours 13))) ''getgods'' [JInt 1]
             = (Inr [champion], hours 13)"
    by (simp add: items_down_def fetch_answering warm_api_def)
  have b': "fetch items_down (hours 13) ''getitems'' [JInt 1] = (Inl TransportError, hours 13)"
    by (simp add: items_down_def fetch_answering)
  have c': "\<not> (\<exists>champions items.
                 (Inr [champion] :: error + response) = Inr champions \<and> champions \<noteq> []
                 \<and> (Inl TransportError :: error + response) = Inr items \<and> items \<noteq> [])"
    by simp
  have l: "lookup raw_cache (cache (warm_api (hours 13))) 1 = Some ([champion], [item])"
    by (simp add: raw_cache_def spec_cache_def warm_api_def)
  have d: "fst (get_champion_info items_down raw_cache 1 True (warm_api (hours 13)))
             = Inl TransportError"
    by (simp add: get_champion_info_def request_def items_down_def fetch_answering)
  have e: "fst (get_champion_info items_empty raw_cache 1 True (warm_api (hours 13)))
             = Inr (Some ([champion], [item]))"
    by (simp add: get_champion_info_def request_def items_empty_def fetch_answering l)
  show ?thesis
    using champion_info_atomic [OF a b c, of raw_cache True]
      champion_info_atomic [OF a' b' c', of raw_cache True] d e
    by simp
qed

text \<open>
  What a refresh does when a fetch brings no data, for both caches: an empty response, and
  a fetch that raises.
\<close>

lemma status_empty:
  assumes "fetch tr (world st) ''gethirezserverstatus'' [] = (Inr [], w')"
  shows "fst (get_server_status tr force_refresh st) = Inr (cached_status st)
       \<and> server_status (snd (get_server_status tr force_refresh st)) = server_status st"
  using assms by (simp add: get_server_status_def request_fetch Let_def cached_status_def)

lemma status_raise:
  assumes "fetch tr (world st) ''gethirezserverstatus'' [] = (Inl e, w')"
    and "status_stale (utcnow tr (world st)) st \<or> force_refresh"
  shows "fst (get_server_status tr force_refresh st) = Inl e
       \<and> server_status (snd (get_server_status tr force_refresh st)) = server_status st"
  using assms by (auto simp add: get_server_status_def request_fetch Let_def)

lemma info_empty:
  assumes "fetch tr (world st) ''getgods'' [JInt language] = (Inr champions, w1)"
    and "fetch tr w1 ''getitems'' [JInt language] = (Inr items, w2)"
    and "champions = [] \<or> items = []"
  shows "fst (get_champion_info tr dc language force_refresh st) = Inr (lookup dc (cache st) language)
       \<and> cache (snd (get_champion_info tr dc language force_refresh st)) = cache st"
  using assms by (auto simp add: get_champion_info_def request_fetch)

lemma info_raise:
  assumes "needs_refreshing dc (world st) (cache st) language \<or> force_refresh"
    and "fetch tr (world st) ''getgods'' [JInt language] = (rc, w1)"
    and "fetch tr w1 ''getitems'' [JInt language] = (ri, w2)"
    and "rc = Inl e \<or> ((\<exists>champions. rc = Inr champions) \<and> ri = Inl e)"
  shows "fst (get_champion_info tr dc language force_refresh st) = Inl e
       \<and> cache (snd (get_champion_info tr dc language force_refresh st)) = cache st"
  using assms by (auto simp add: get_champion_info_def request_fetch)

lemma lookup_warm: "lookup raw_cache (cache (warm_api t)) 1 = Some ([champion], [item])"
  by (simp add: raw_cache_def spec_cache_def warm_api_def)

text \<open>
  C2, as the code has it. \<open>get_server_status\<close> and \<open>get_champion_info\<close> have no exception
  handler around their requests. When the refresh fetch returns an empty response, the call
  returns what was cached before (\<open>None\<close> when nothing was) and the cache is unchanged.
  When a refresh is due and the fetch raises, the call raises the same error and the cache
  is unchanged as well: the error reaches the caller.
\<close>

theorem refresh_without_data:
  "(fetch tr (world st) ''gethirezserverstatus'' [] = (Inr [], w') \<longrightarrow>
      fst (get_server_status tr force_refresh st) = Inr (cached_status st)
      \<and> server_status (snd (get_server_status tr force_refresh st)) = server_status st)
   \<and> (fetch tr (world st) ''gethirezserverstatus'' [] = (Inl e, w')
        \<and> (status_stale (utcnow tr (world st)) st \<or> force_refresh) \<longrightarrow>
      fst (get_server_status tr force_refresh st) = Inl e
      \<and> server_status (snd (get_server_status tr force_refresh st)) = server_status st)
   \<and> (fetch tr (world st) ''getgods'' [JInt language] = (Inr champions, w1)
        \<and> fetch tr w1 ''getitems'' [JInt language] = (Inr items, w2)
        \<and> (champions = [] \<or> items = []) \<longrightarrow>
      fst (get_champion_info tr dc language force_refresh st)
        = Inr (lookup dc (cache st) language)
      \<and> cache (snd (get_champion_info tr dc language force_refresh st)) = cache st)
   \<and> (fetch tr (world st) ''getgods'' [JInt language] = (rc, w1)
        \<and> fetch tr w1 ''getitems'' [JInt language] = (ri, w2)
        \<and> (needs_refreshing dc (world st) (cache st) language \<or> force_refresh)
        \<and> (rc = Inl e \<or> ((\<exists>champions. rc = Inr champions) \<and> ri = Inl e)) \<longrightarrow>
      fst (get_champion_info tr dc language force_refresh st) = Inl e
      \<and> cache (snd (get_champion_info tr dc language force_refresh st)) = cache st)"
  using status_empty [of tr st w' force_refresh] status_raise [of tr st e w' force_refresh]
    info_empty [of tr st language champions w1 items w2 dc force_refresh]
    info_raise [of dc st language force_refresh tr rc w1 ri w2 e]
  by blast

theorem refresh_without_data_witness:
  "fst (get_server_status all_empty False (warm_api (hours 13))) = Inr (Some live_pc_status)
   \<and> fst (get_server_status all_down True (warm_api 5)) = Inl TransportError
   \<and> server_status (snd (get_server_status all_down True (warm_api 5))) = server_status (warm_api 5)
   \<and> fst (get_champion_info all_empty raw_cache 1 True (warm_api 5)) = Inr (Some ([champion], [item]))
   \<and> fst (get_champion_info items_down raw_cache 1 True (warm_api 5)) = Inl TransportError
   \<and> cache (snd (get_champion_info items_down raw_cache 1 True (warm_api 5))) = cache (warm_api 5)"
proof -
  have w: "world (warm_api t) = t" for t
    by (simp add: warm_api_def)
  have c1: "cached_status (warm_api t) = Some live_pc_status" for t
    by (simp add: cached_status_def warm_api_def)
  have 1: "fst (get_server_status all_empty False (warm_api (hours 13))) = Inr (Some live_pc_status)"
    using refresh_without_data [where tr = all_empty and st = "warm_api (hours 13)"
        and w' = "hours 13" and force_refresh = False and e = TransportError and language = 1
        and champions = "[]" and items = "[]" and ?w1.0 = "hours 13" and ?w2.0 = "hours 13"
        and dc = raw_cache and rc = "Inr []" and ri = "Inr []"]
    by (simp add: all_empty_def fetch_answering w c1)
  have 2: "fst (get_server_status all_down True (warm_api 5)) = Inl TransportError
      \<and> server_status (snd (get_server_status all_down True (warm_api 5))) = server_status (warm_api 5)"
    using refresh_without_data [where tr = all_down and st = "warm_api 5"
        and w' = 5 and force_refresh = True and e = TransportError and language = 1
        and champions = "[]" and items = "[]" and ?w1.0 = 5 and ?w2.0 = 5
        and dc = raw_cache and rc = "Inl TransportError" and ri = "Inl TransportError"]
    by (simp add: all_down_def fetch_answering w)
  have 3: "fst (get_champion_info all_empty raw_cache 1 True (warm_api 5)) = Inr (Some ([champion], [item]))"
    using refresh_without_data [where tr = all_empty and st = "warm_api 5"
        and w' = 5 and force_refresh = True and e = TransportError and language = 1
        and champions = "[]" and items = "[]" and ?w1.0 = 5 and ?w2.0 = 5
        and dc = raw_cache and rc = "Inr []" and ri = "Inr []"]
    by (simp add: all_empty_def fetch_answering w lookup_warm)
  have 4: "fst (get_champion_info items_down raw_cache 1 True (warm_api 5)) = Inl TransportError
      \<and> cache (snd (get_champion_info items_down raw_cache 1 True (warm_api 5))) = cache (warm_api 5)"
    using refresh_without_data [where tr = items_down and st = "warm_api 5"
        and w' = 5 and force_refresh = True and e = TransportError and language = 1
        and champions = "[]" and items = "[]" and ?w1.0 = 5 and ?w2.0 = 5
        and dc = raw_cache and rc = "Inr [champion]" and ri = "Inl TransportError"]
    by (simp add: items_down_def fetch_answering w)
  show ?thesis using 1 2 3 4 by simp
qed

text \<open>
  The claim that a value or \<open>None\<close> are the only outcomes fails as soon as the endpoint
  raises: with nothing cached, both calls end with the endpoint's error.
\<close>

theorem refresh_raises_counterexample:
  "fst (get_server_status all_down False (fresh_api 0)) = Inl TransportError
   \<and> fst (get_champion_info all_down raw_cache 1 False (fresh_api 0)) = Inl TransportError"
  by (simp add: get_server_status_def get_champion_info_def request_def all_down_def
      fetch_answering utcnow_answering status_stale_def fresh_api_def raw_cache_def spec_cache_def)

section \<open>The status cache\<close>

lemma ServerStatus_live_pc: "ServerStatus [live_pc] = Inr live_pc_status"
  by (simp add: ServerStatus_def status_step_def live_pc_def getitem_def live_pc_status_def)

text \<open>
  C7. A call of \<open>get_server_status\<close> at time \<open>t0\<close> that fetches a non-empty response, from
  which the status object \<open>s\<close> is built, returns \<open>s\<close> and stores it together with
  \<open>t0 + 1 minute\<close>: the entry records the time of population as the expiry time one TTL
  later. Every later call without \<open>force_refresh\<close>, in any state of the client that holds
  this entry and whose clock reads less than \<open>t0 + 1 minute\<close>, returns the same \<open>s\<close> and
  leaves the client as it is, its request log included: no request is issued.
\<close>

theorem status_cache_stable:
  fixes st :: "('w, 'c) api"
  assumes "utcnow tr (world st) = t0"
    and "status_stale t0 st \<or> force_refresh"
    and "fetch tr (world st) ''gethirezserverstatus'' [] = (Inr response, w')"
    and "response \<noteq> []"
    and "ServerStatus response = Inr s"
  shows "fst (get_server_status tr force_refresh st) = Inr (Some s)
       \<and> server_status (snd (get_server_status tr force_refresh st)) = Some (s, t0 + minutes 1)
       \<and> (\<forall>st2 :: ('w, 'c) api.
             server_status st2 = server_status (snd (get_server_status tr force_refresh st))
               \<and> utcnow tr (world st2) < t0 + minutes 1
             \<longrightarrow> get_server_status tr False st2 = (Inr (Some s), st2))"
proof -
  have 1: "get_server_status tr force_refresh st =
        (Inr (Some s), st\<lparr>world := w', calls := calls st @ [(''gethirezserverstatus'', [])],
                          server_status := Some (s, t0 + minutes 1)\<rparr>)"
    using assms by (auto simp add: get_server_status_def request_fetch Let_def cached_status_def)
  have 2: "get_server_status tr False st2 = (Inr (Some s), st2)"
    if "server_status st2 = Some (s, t0 + minutes 1)" "utcnow tr (world st2) < t0 + minutes 1"
    for st2 :: "('w, 'c) api"
    using that by (simp add: get_server_status_def status_stale_def cached_status_def)
  show ?thesis using 1 2 by simp
qed

theorem status_cache_stable_witness:
  "fst (get_server_status healthy False (fresh_api 0)) = Inr (Some live_pc_status)
   \<and> server_status (snd (get_server_status healthy False (fresh_api 0)))
       = Some (live_pc_status, minutes 1)
   \<and> get_server_status healthy False (warm_api (minutes 1 - 1))
       = (Inr (Some live_pc_status), warm_api (minutes 1 - 1))
   \<and> calls (snd (get_server_status healthy False (warm_api (minutes 1 - 1))))
       = calls (warm_api (minutes 1 - 1))"
proof -
  have a: "utcnow healthy (world (fresh_api 0)) = 0"
    by (simp add: healthy_def utcnow_answering fresh_api_def)
  have b: "status_stale 0 (fresh_api 0) \<or> False"
    by (simp add: status_stale_def fresh_api_def)
  have c: "fetch healthy (world (fresh_api 0)) ''gethirezserverstatus'' [] = (Inr [live_pc], 0)"
    by (simp add: healthy_def fetch_answering fresh_api_def)
  have d: "[live_pc] \<noteq> []"
    by simp
  note t = status_cache_stable [OF a b c d ServerStatus_live_pc]
  have e: "server_status (warm_api (minutes 1 - 1))
             = server_status (snd (get_server_status healthy False (fresh_api 0)))
           \<and> utcnow healthy (world (warm_api (minutes 1 - 1))) < 0 + minutes 1"
    using t by (simp add: warm_api_def healthy_def utcnow_answering)
  from t have "\<forall>st2 :: (time, raw_entries) api.
             server_status st2 = server_status (snd (get_server_status healthy False (fresh_api 0)))
               \<and> utcnow healthy (world st2) < 0 + minutes 1
             \<longrightarrow> get_server_status healthy False st2 = (Inr (Some live_pc_status), st2)"
    by blast
  with e have "get_server_status healthy False (warm_api (minutes 1 - 1))
       = (Inr (Some live_pc_status), warm_api (minutes 1 - 1))"
    by blast
  with t show ?thesis by simp
qed

section \<open>Expansion of a partial player\<close>

text \<open>
  C3. \<open>_expand\<close> on a player whose identifier is zero raises \<open>Private\<close> and returns the client
  untouched: the request log and the outside world are what they were, so the endpoint was
  not called.
\<close>

theorem expand_private:
  "id' (base self) = 0 \<Longrightarrow>
   expand tr po self st = (Inl Private, st)
   \<and> calls (snd (expand tr po self st)) = calls st
   \<and> world (snd (expand tr po self st)) = world st"
  by (simp add: expand_def private_prop_def)

theorem expand_private_witness:
  "id' (base hidden_player) = 0
   \<and> expand healthy plain_ops hidden_player (fresh_api 0) = (Inl Private, fresh_api 0)
   \<and> calls (snd (expand healthy plain_ops hidden_player (fresh_api 0))) = []"
proof -
  have z: "id' (base hidden_player) = 0"
    by (simp add: hidden_player_def)
  show ?thesis
    using z expand_private [OF z, of healthy plain_ops "fresh_api 0"]
    by (simp add: fresh_api_def)
qed

text \<open>What the constructors build when their conversions succeed.\<close>

lemma PartialPlayer_init_value:
  "py_int id_arg = Inr i \<Longrightarrow> platform_key platform_arg = Inr key \<Longrightarrow>
   PartialPlayer_init po id_arg name_arg platform_arg
     = Inr \<lparr>id' = i, name = name_arg, platform = platform_of po key\<rparr>"
  by (simp add: PartialPlayer_init_def)

lemma merged_player_value:
  "subscript p ''playerId'' = Inr pid \<Longrightarrow> subscript p ''portalId'' = Inr portal \<Longrightarrow>
   py_int pid = Inr i \<Longrightarrow> platform_key portal = Inr key \<Longrightarrow>
   merged_player po p = Inr \<lparr>id' = i, name = JStr [], platform = platform_of po key\<rparr>"
  by (simp add: merged_player_def PartialPlayer_init_def default_name_def)

lemma Player_init_missing_field:
  "getitem player_data ''Id'' = Inl e \<Longrightarrow> Player_init po player_data = Inl e"
  by (simp add: Player_init_def)

lemma Player_init_value:
  assumes "getitem r ''Id'' = Inr id_v" and "py_int id_v = Inr i"
    and "getitem r ''Name'' = Inr name_v"
    and "getitem r ''Platform'' = Inr platform_v" and "platform_key platform_v = Inr key"
    and "getitem r ''ActivePlayerId'' = Inr active_v"
    and "json_eq_int active_v i \<or> py_int active_v = Inr active_i"
    and "getitem r ''MergedPlayers'' = Inr merged_v"
    and "(if truthy merged_v then merged_loop po merged_v else Inr []) = Inr merged"
    and "getitem r ''Created_Datetime'' = Inr created_v"
    and "convert_timestamp po created_v = Inr created"
    and "getitem r ''Last_Login_Datetime'' = Inr login_v"
    and "convert_timestamp po login_v = Inr login"
    and "getitem r ''Level'' = Inr level_v"
    and "getitem r ''HoursPlayed'' = Inr hours_v" and "Duration po hours_v = Inr played"
    and "getitem r ''MasteryLevel'' = Inr mastery_v"
    and "getitem r ''Region'' = Inr region_v"
    and "getitem r ''Total_Achievements'' = Inr achievements_v"
    and "getitem r ''Total_Worshippers'' = Inr worshippers_v"
    and "getitem r ''hz_gamer_tag'' = Inr tag_v"
    and "getitem r ''hz_player_name'' = Inr hz_name_v"
    and "Stats po r = Inr stats"
    and "getitem r ''RankedKBM'' = Inr kbm_v" and "RankedStats po ''Keyboard'' kbm_v = Inr keyboard"
    and "getitem r ''RankedController'' = Inr pad_v"
    and "RankedStats po ''Controller'' pad_v = Inr controller"
  shows "Player_init po r =
           Inr (Player \<lparr>id' = i, name = name_v, platform = platform_of po key\<rparr>
                  \<lparr>active_player =
                     (if json_eq_int active_v i then None
                      else Some \<lparr>id' = active_i, name = JStr [],
                                 platform = platform_of po (JInt 0)\<rparr>),
                   merged_players = merged,
                   created_at = created, last_login = login, level = level_v,
                   playtime = played, champion_count = mastery_v,
                   region = region_of po region_v,
                   total_achievements = achievements_v, total_exp = worshippers_v,
                   hz_gamer_tag = tag_v, hz_player_name = hz_name_v,
                   casual = stats, ranked_keyboard = keyboard,
                   ranked_controller = controller\<rparr>)"
proof -
  have self: "PartialPlayer_init po id_v name_v platform_v
                = Inr \<lparr>id' = i, name = name_v, platform = platform_of po key\<rparr>"
    using assms(2,5) by (rule PartialPlayer_init_value)
  have key0: "platform_key default_platform = Inr (JInt 0)"
    by (simp add: platform_key_def default_platform_def)
  have active: "(if \<not> json_eq_int active_v i
                 then (case PartialPlayer_init po active_v default_name default_platform of
                         Inl e \<Rightarrow> Inl e | Inr a \<Rightarrow> Inr (Some a))
                 else Inr None)
                = Inr (if json_eq_int active_v i then None
                       else Some \<lparr>id' = active_i, name = JStr [],
                                  platform = platform_of po (JInt 0)\<rparr>)"
    using assms(7) by (auto simp: PartialPlayer_init_value [OF _ key0] default_name_def)
  show ?thesis
    unfolding Player_init_def
    by (simp add: assms self active del: json_eq_int.simps)
qed

text \<open>
  C9, as the code has it. For a player with a non-zero identifier whose \<open>getplayer\<close>
  request returns, \<open>_expand\<close> issues exactly that one request. With no record in the
  response the result is \<open>None\<close>, a returned value and not a raised error. With a first
  record that has every field \<open>Player.__init__\<close> subscripts, and values its conversions
  accept, the result is a \<open>Player\<close> built from that record: identifier, name and platform,
  the active player when its identifier differs, the merged players, and every further
  attribute come from the record's fields. The constructor has no defaults: a record that
  lacks a field is outside this statement.
\<close>

theorem expand_outcome:
  assumes "id' (base self) \<noteq> 0"
    and "fetch tr (world st) ''getplayer'' [JInt (id' (base self))] = (Inr response, w')"
  shows
    "(response = [] \<longrightarrow>
        expand tr po self st =
          (Inr None,
           st\<lparr>world := w', calls := calls st @ [(''getplayer'', [JInt (id' (base self))])]\<rparr>))
     \<and> (response = r # rs
          \<and> getitem r ''Id'' = Inr id_v \<and> py_int id_v = Inr i
          \<and> getitem r ''Name'' = Inr name_v
          \<and> getitem r ''Platform'' = Inr platform_v \<and> platform_key platform_v = Inr key
          \<and> getitem r ''ActivePlayerId'' = Inr active_v
          \<and> (json_eq_int active_v i \<or> py_int active_v = Inr active_i)
          \<and> getitem r ''MergedPlayers'' = Inr merged_v
          \<and> (if truthy merged_v then merged_loop po merged_v else Inr []) = Inr merged
          \<and> getitem r ''Created_Datetime'' = Inr created_v
          \<and> convert_timestamp po created_v = Inr created
          \<and> getitem r ''Last_Login_Datetime'' = Inr login_v
          \<and> convert_timestamp po login_v = Inr login
          \<and> getitem r ''Level'' = Inr level_v
          \<and> getitem r ''HoursPlayed'' = Inr hours_v \<and> Duration po hours_v = Inr played
          \<and> getitem r ''MasteryLevel'' = Inr mastery_v
          \<and> getitem r ''Region'' = Inr region_v
          \<and> getitem r ''Total_Achievements'' = Inr achievements_v
          \<and> getitem r ''Total_Worshippers'' = Inr worshippers_v
          \<and> getitem r ''hz_gamer_tag'' = Inr tag_v
          \<and> getitem r ''hz_player_name'' = Inr hz_name_v
          \<and> Stats po r = Inr stats
          \<and> getitem r ''RankedKBM'' = Inr kbm_v
          \<and> RankedStats po ''Keyboard'' kbm_v = Inr keyboard
          \<and> getitem r ''RankedController'' = Inr pad_v
          \<and> RankedStats po ''Controller'' pad_v = Inr controller \<longrightarrow>
        expand tr po self st =
          (Inr (Some
             (Player \<lparr>id' = i, name = name_v, platform = platform_of po key\<rparr>
                \<lparr>active_player =
                   (if json_eq_int active_v i then None
                    else Some \<lparr>id' = active_i, name = JStr [],
                               platform = platform_of po (JInt 0)\<rparr>),
                 merged_players = merged,
                 created_at = created, last_login = login, level = level_v,
                 playtime = played, champion_count = mastery_v,
                 region = region_of po region_v,
                 total_achievements = achievements_v, total_exp = worshippers_v,
                 hz_gamer_tag = tag_v, hz_player_name = hz_name_v,
                 casual = stats, ranked_keyboard = keyboard,
                 ranked_controller = controller\<rparr>)),
           st\<lparr>world := w', calls := calls st @ [(''getplayer'', [JInt (id' (base self))])]\<rparr>))"
proof (intro conjI impI)
  assume "response = []"
  with assms show "expand tr po self st =
      (Inr None,
       st\<lparr>world := w', calls := calls st @ [(''getplayer'', [JInt (id' (base self))])]\<rparr>)"
    by (simp add: expand_def private_prop_def request_fetch)
next
  assume h: "response = r # rs
          \<and> getitem r ''Id'' = Inr id_v \<and> py_int id_v = Inr i
          \<and> getitem r ''Name'' = Inr name_v
          \<and> getitem r ''Platform'' = Inr platform_v \<and> platform_key platform_v = Inr key
          \<and> getitem r ''ActivePlayerId'' = Inr active_v
          \<and> (json_eq_int active_v i \<or> py_int active_v = Inr active_i)
          \<and> getitem r ''MergedPlayers'' = Inr merged_v
          \<and> (if truthy merged_v then merged_loop po merged_v else Inr []) = Inr merged
          \<and> getitem r ''Created_Datetime'' = Inr created_v
          \<and> convert_timestamp po created_v = Inr created
          \<and> getitem r ''Last_Login_Datetime'' = Inr login_v
          \<and> convert_timestamp po login_v = Inr login
          \<and> getitem r ''Level'' = Inr level_v
          \<and> getitem r ''HoursPlayed'' = Inr hours_v \<and> Duration po hours_v = Inr played
          \<and> getitem r ''MasteryLevel'' = Inr mastery_v
          \<and> getitem r ''Region'' = Inr region_v
          \<and> getitem r ''Total_Achievements'' = Inr achievements_v
          \<and> getitem r ''Total_Worshippers'' = Inr worshippers_v
          \<and> getitem r ''hz_gamer_tag'' = Inr tag_v
          \<and> getitem r ''hz_player_name'' = Inr hz_name_v
          \<and> Stats po r = Inr stats
          \<and> getitem r ''RankedKBM'' = Inr kbm_v
          \<and> RankedStats po ''Keyboard'' kbm_v = Inr keyboard
          \<and> getitem r ''RankedController'' = Inr pad_v
          \<and> RankedStats po ''Controller'' pad_v = Inr controller"
  then have built: "Player_init po r =
           Inr (Player \<lparr>id' = i, name = name_v, platform = platform_of po key\<rparr>
                  \<lparr>active_player =
                     (if json_eq_int active_v i then None
                      else Some \<lparr>id' = active_i, name = JStr [],
                                 platform = platform_of po (JInt 0)\<rparr>),
                   merged_players = merged,
                   created_at = created, last_login = login, level = level_v,
                   playtime = played, champion_count = mastery_v,
                   region = region_of po region_v,
                   total_achievements = achievements_v, total_exp = worshippers_v,
                   hz_gamer_tag = tag_v, hz_player_name = hz_name_v,
                   casual = stats, ranked_keyboard = keyboard,
                   ranked_controller = controller\<rparr>)"
    by (intro Player_init_value [where id_v = id_v and platform_v = platform_v
          and merged_v = merged_v and created_v = created_v and login_v = login_v
          and hours_v = hours_v and kbm_v = kbm_v and pad_v = pad_v]) simp_all
  from h have "response = r # rs" by simp
  with assms built show "expand tr po self st =
          (Inr (Some
             (Player \<lparr>id' = i, name = name_v, platform = platform_of po key\<rparr>
                \<lparr>active_player =
                   (if json_eq_int active_v i then None
                    else Some \<lparr>id' = active_i, name = JStr [],
                               platform = platform_of po (JInt 0)\<rparr>),
                 merged_players = merged,
                 created_at = created, last_login = login, level = level_v,
                 playtime = played, champion_count = mastery_v,
                 region = region_of po region_v,
                 total_achievements = achievements_v, total_exp = worshippers_v,
                 hz_gamer_tag = tag_v, hz_player_name = hz_name_v,
                 casual = stats, ranked_keyboard = keyboard,
                 ranked_controller = controller\<rparr>)),
           st\<lparr>world := w', calls := calls st @ [(''getplayer'', [JInt (id' (base self))])]\<rparr>)"
    by (simp add: expand_def private_prop_def request_fetch)
qed

lemma getitem_player_record:
  "getitem player_record ''Id'' = Inr (JInt 7)"
  "getitem player_record ''Name'' = Inr (JStr ''Seven'')"
  "getitem player_record ''Platform'' = Inr (JStr ''1'')"
  "getitem player_record ''ActivePlayerId'' = Inr (JInt 9)"
  "getitem player_record ''MergedPlayers''
     = Inr (JList [JObj [(''playerId'', JStr ''12''), (''portalId'', JStr ''5'')]])"
  "getitem player_record ''Created_Datetime'' = Inr (JStr ''1/2/2019 3:04:05 PM'')"
  "getitem player_record ''Last_Login_Datetime'' = Inr (JStr [])"
  "getitem player_record ''Level'' = Inr (JInt 30)"
  "getitem player_record ''HoursPlayed'' = Inr (JInt 100)"
  "getitem player_record ''MasteryLevel'' = Inr (JInt 12)"
  "getitem player_record ''Region'' = Inr (JStr ''Europe'')"
  "getitem player_record ''Total_Achievements'' = Inr (JInt 5)"
  "getitem player_record ''Total_Worshippers'' = Inr (JInt 1000)"
  "getitem player_record ''hz_gamer_tag'' = Inr JNull"
  "getitem player_record ''hz_player_name'' = Inr (JStr ''Seven'')"
  "getitem player_record ''Wins'' = Inr (JInt 3)"
  "getitem player_record ''RankedKBM'' = Inr (JObj [(''Tier'', JInt 10)])"
  "getitem player_record ''RankedController'' = Inr (JObj [(''Tier'', JInt 0)])"
  by (simp_all add: getitem_def player_record_def identity_fields_def)

lemma int_of_small_strings:
  "int_of_str ''1'' = Inr 1" "int_of_str ''5'' = Inr 5" "int_of_str ''12'' = Inr 12"
  "int_of_str ''0'' = Inr 0"
  by (simp_all add: int_of_str_def strip_def is_space_def is_digit_def)

lemma platform_key_small_strings:
  "platform_key (JStr ''1'') = Inr (JInt 1)" "platform_key (JStr ''5'') = Inr (JInt 5)"
  by (simp_all add: platform_key_def int_of_small_strings is_digit_def)

lemma merged_of_player_record:
  "merged_loop plain_ops (JList [JObj [(''playerId'', JStr ''12''), (''portalId'', JStr ''5'')]])
     = Inr [\<lparr>id' = 12, name = JStr [], platform = JInt 5\<rparr>]"
proof -
  have "merged_player plain_ops (JObj [(''playerId'', JStr ''12''), (''portalId'', JStr ''5'')])
          = Inr \<lparr>id' = 12, name = JStr [], platform = platform_of plain_ops (JInt 5)\<rparr>"
    by (rule merged_player_value [where pid = "JStr ''12''" and portal = "JStr ''5''"])
      (simp_all add: getitem_def int_of_small_strings platform_key_small_strings)
  then show ?thesis by (simp add: plain_ops_def)
qed

theorem expand_outcome_witness:
  "expand all_empty plain_ops some_player (fresh_api 0)
     = (Inr None, (fresh_api 0)\<lparr>calls := [(''getplayer'', [JInt 7])]\<rparr>)
   \<and> expand healthy plain_ops some_player (fresh_api 0)
     = (Inr (Some (full_player 7)), (fresh_api 0)\<lparr>calls := [(''getplayer'', [JInt 7])]\<rparr>)"
proof -
  have n: "id' (base some_player) \<noteq> 0" and i: "id' (base some_player) = 7"
    by (simp_all add: some_player_def)
  have a: "fetch all_empty (world (fresh_api 0)) ''getplayer'' [JInt (id' (base some_player))]
             = (Inr [], 0)"
    by (simp add: all_empty_def fetch_answering fresh_api_def)
  have b: "fetch healthy (world (fresh_api 0)) ''getplayer'' [JInt (id' (base some_player))]
             = (Inr [player_record], 0)"
    by (simp add: healthy_def fetch_answering fresh_api_def)
  have 1: "expand all_empty plain_ops some_player (fresh_api 0)
     = (Inr None, (fresh_api 0)\<lparr>calls := [(''getplayer'', [JInt 7])]\<rparr>)"
    using expand_outcome [OF n a, of plain_ops] by (simp add: i fresh_api_def)
  have c: "convert_timestamp plain_ops (JStr ''1/2/2019 3:04:05 PM'')
             = Inr (Some (JStr ''1/2/2019 3:04:05 PM''))"
    "convert_timestamp plain_ops (JStr []) = Inr None"
    by (simp_all add: convert_timestamp_def plain_ops_def)
  have d: "Duration plain_ops (JInt 100) = Inr (JInt 100)"
    "Stats plain_ops player_record = Inr (JObj [(''Wins'', JInt 3)])"
    "RankedStats plain_ops ''Keyboard'' (JObj [(''Tier'', JInt 10)])
       = Inr (JObj [(''type'', JStr ''Keyboard''), (''Tier'', JInt 10)])"
    "RankedStats plain_ops ''Controller'' (JObj [(''Tier'', JInt 0)])
       = Inr (JObj [(''type'', JStr ''Controller''), (''Tier'', JInt 0)])"
    by (simp_all add: plain_ops_def getitem_player_record)
  have 2: "expand healthy plain_ops some_player (fresh_api 0)
     = (Inr (Some (full_player 7)), (fresh_api 0)\<lparr>calls := [(''getplayer'', [JInt 7])]\<rparr>)"
    using expand_outcome [OF n b, where po = plain_ops and r = player_record and rs = "[]"
        and id_v = "JInt 7" and i = 7 and name_v = "JStr ''Seven''"
        and platform_v = "JStr ''1''" and key = "JInt 1"
        and active_v = "JInt 9" and active_i = 9
        and merged_v = "JList [JObj [(''playerId'', JStr ''12''), (''portalId'', JStr ''5'')]]"
        and merged = "[\<lparr>id' = 12, name = JStr [], platform = JInt 5\<rparr>]"
        and created_v = "JStr ''1/2/2019 3:04:05 PM''"
        and created = "Some (JStr ''1/2/2019 3:04:05 PM'')"
        and login_v = "JStr []" and login = None
        and level_v = "JInt 30" and hours_v = "JInt 100" and played = "JInt 100"
        and mastery_v = "JInt 12" and region_v = "JStr ''Europe''"
        and achievements_v = "JInt 5" and worshippers_v = "JInt 1000"
        and tag_v = JNull and hz_name_v = "JStr ''Seven''"
        and stats = "JObj [(''Wins'', JInt 3)]"
        and kbm_v = "JObj [(''Tier'', JInt 10)]"
        and keyboard = "JObj [(''type'', JStr ''Keyboard''), (''Tier'', JInt 10)]"
        and pad_v = "JObj [(''Tier'', JInt 0)]"
        and controller = "JObj [(''type'', JStr ''Controller''), (''Tier'', JInt 0)]"]
    by (simp add: getitem_player_record platform_key_small_strings merged_of_player_record c d i
        del: merged_loop.simps)
      (simp add: plain_ops_def full_player_def fresh_api_def)
  show ?thesis using 1 2 by simp
qed

text \<open>
  A first record that lacks a field the constructor subscripts gives no \<open>Player\<close>: with
  the identity fields only, line 300 raises \<open>KeyError\<close> at \<open>Created_Datetime\<close>, and an empty
  record raises it at \<open>Id\<close>.
\<close>

theorem expand_missing_field_counterexample:
  "fst (expand identity_only plain_ops some_player (fresh_api 0)) = Inl KeyError
   \<and> fst (expand empty_record plain_ops some_player (fresh_api 0)) = Inl KeyError"
proof -
  have p: "\<not> private_prop some_player"
    by (simp add: private_prop_def some_player_def)
  have g: "getitem identity_fields ''Id'' = Inr (JInt 7)"
    "getitem identity_fields ''Name'' = Inr (JStr ''Seven'')"
    "getitem identity_fields ''Platform'' = Inr (JStr ''1'')"
    "getitem identity_fields ''ActivePlayerId'' = Inr (JInt 9)"
    "getitem identity_fields ''MergedPlayers''
       = Inr (JList [JObj [(''playerId'', JStr ''12''), (''portalId'', JStr ''5'')]])"
    "getitem identity_fields ''Created_Datetime'' = Inl KeyError"
    by (simp_all add: getitem_def identity_fields_def)
  have key0: "platform_key default_platform = Inr (JInt 0)"
    by (simp add: platform_key_def default_platform_def)
  have s: "PartialPlayer_init plain_ops (JInt 7) (JStr ''Seven'') (JStr ''1'')
             = Inr \<lparr>id' = 7, name = JStr ''Seven'', platform = JInt 1\<rparr>"
    "PartialPlayer_init plain_ops (JInt 9) default_name default_platform
             = Inr \<lparr>id' = 9, name = JStr [], platform = JInt 0\<rparr>"
    by (simp_all add: PartialPlayer_init_def platform_key_small_strings key0
        default_name_def plain_ops_def)
  have k: "Player_init plain_ops identity_fields = Inl KeyError"
    by (simp add: Player_init_def g s merged_of_player_record del: merged_loop.simps)
  have 1: "fst (expand identity_only plain_ops some_player (fresh_api 0)) = Inl KeyError"
    by (simp add: expand_def p request_def identity_only_def fetch_answering k)
  have 2: "fst (expand empty_record plain_ops some_player (fresh_api 0)) = Inl KeyError"
    by (simp add: expand_def p request_def empty_record_def fetch_answering
        Player_init_missing_field getitem_def)
  show ?thesis using 1 2 by simp
qed

section \<open>Equality of players\<close>

text \<open>
  C5, as the code has it. \<open>__eq__\<close> first asserts that the other operand is an instance of
  the class of \<open>self\<close>. Where that assertion holds the method returns the truth value of
  "both identifiers are non-zero and equal", and \<open>a == b\<close> returns it for two players of the
  same class: with non-zero identifiers the players are equal exactly when the identifiers
  are, and a player with identifier zero equals no player of its class, itself included.
\<close>

theorem eq_same_class:
  "(isinstance (PlayerVal b) (class_of a) \<longrightarrow>
      eq_method a (PlayerVal b)
        = Inr (id' (base a) \<noteq> 0 \<and> id' (base b) \<noteq> 0 \<and> id' (base a) = id' (base b)))
   \<and> (class_of b = class_of a \<longrightarrow>
      eq_op a (PlayerVal b)
        = Inr (id' (base a) \<noteq> 0 \<and> id' (base b) \<noteq> 0 \<and> id' (base a) = id' (base b)))"
  by (cases "class_of a") (auto simp: eq_method_def)

theorem eq_same_class_witness:
  "eq_op some_player (PlayerVal some_player) = Inr True
   \<and> eq_op (full_player 7) (PlayerVal (full_player 8)) = Inr False
   \<and> eq_op hidden_player (PlayerVal hidden_player) = Inr False
   \<and> eq_op hidden_player (PlayerVal some_player) = Inr False
   \<and> eq_method some_player (PlayerVal (full_player 7)) = Inr True"
  using eq_same_class [of some_player some_player] eq_same_class [of "full_player 8" "full_player 7"]
    eq_same_class [of hidden_player hidden_player] eq_same_class [of some_player hidden_player]
    eq_same_class [of "full_player 7" some_player]
  by (simp add: some_player_def hidden_player_def full_player_def)

text \<open>
  Across the two classes the comparison does not return \<open>False\<close>: a \<open>Player\<close> with
  identifier zero compared with a \<open>PartialPlayer\<close> fails the assertion, and so does one with
  a non-zero identifier.
\<close>

theorem eq_zero_id_counterexample:
  "eq_op (full_player 0) (PlayerVal some_player) = Inl AssertionError
   \<and> eq_method (full_player 0) (PlayerVal some_player) = Inl AssertionError
   \<and> eq_op (full_player 7) (PlayerVal some_player) = Inl AssertionError"
  by (simp add: eq_method_def full_player_def some_player_def)

text \<open>
  C10. For a player \<open>p\<close> and any value \<open>v\<close> that is not an instance of the class of \<open>p\<close>,
  \<open>p == v\<close> raises \<open>AssertionError\<close> (assertions enabled), both as the expression and as the
  direct method call; a \<open>Player\<close> on the left and a \<open>PartialPlayer\<close> on the right is such a
  pair.
\<close>

theorem eq_not_instance:
  "\<not> isinstance v (class_of p) \<Longrightarrow>
   eq_op p v = Inl AssertionError \<and> eq_method p v = Inl AssertionError"
  by (cases v) (auto simp: eq_method_def)

theorem eq_not_instance_witness:
  "\<not> isinstance (PlayerVal hidden_player) (class_of (full_player 7))
   \<and> eq_op (full_player 7) (PlayerVal hidden_player) = Inl AssertionError
   \<and> eq_op some_player (OtherVal (PInt 7) :: (json, json) operand) = Inl AssertionError"
proof -
  have a: "\<not> isinstance (PlayerVal hidden_player) (class_of (full_player 7))"
    by (simp add: hidden_player_def full_player_def)
  have b: "\<not> isinstance (OtherVal (PInt 7) :: (json, json) operand) (class_of some_player)"
    by simp
  show ?thesis
    using a eq_not_instance [OF a] eq_not_instance [OF b] by simp
qed

section \<open>Responses that carry a message instead of data\<close>

lemma match_history_message:
  assumes "\<not> private_prop self"
    and "get_champion_info tr dc language False st = (Inr b, st1)"
    and "fetch tr (world st1) ''getmatchhistory'' [JInt (id' (base self))] = (Inr (r # rs), w2)"
    and "getitem r ''ret_msg'' = Inr v" and "truthy v"
  shows "fst (get_match_history tr dc PartialMatch self language st) = Inr []"
  using assms by (simp add: get_match_history_def request_fetch)

lemma loadouts_player_id:
  assumes "\<not> private_prop self"
    and "get_champion_info tr dc language False st = (Inr b, st1)"
    and "fetch tr (world st1) ''getplayerloadouts'' [JInt (id' (base self)), JInt language]
           = (Inr (r # rs), w2)"
    and "getitem r ''playerId'' = Inr v" and "\<not> truthy v"
  shows "fst (get_loadouts tr dc Loadout self language st) = Inr []"
  using assms by (simp add: get_loadouts_def request_fetch)

lemma friends_all:
  assumes "\<not> private_prop self"
    and "fetch tr (world st) ''getfriends'' [JInt (id' (base self))] = (Inr response, w1)"
  shows "fst (get_friends tr po self st) = map_raise (friend_of po) response"
  using assms by (simp add: get_friends_def request_fetch)

lemma info_warm:
  "get_champion_info tr raw_cache 1 False (warm_api 5) = (Inr (Some ([champion], [item])), warm_api 5)"
  by (simp add: get_champion_info_def raw_cache_def spec_cache_def warm_api_def hours_def)

lemma friend_of_message_record:
  "friend_of plain_ops message_record
     = Inr (PartialPlayer \<lparr>id' = 0, name = JStr [], platform = JInt 0\<rparr>)"
  by (simp add: friend_of_def message_record_def getitem_def PartialPlayer_init_def plain_ops_def
      default_platform_def platform_key_def int_of_small_strings)

text \<open>
  C8, as the code has it. The three operations treat such a response differently.
  \<open>get_match_history\<close> returns the empty list when the first record of the response has a
  truthy \<open>ret_msg\<close>. \<open>get_loadouts\<close> does not read a message field: it returns the empty list
  when the first record's \<open>playerId\<close> is falsy. \<open>get_friends\<close> has no such test and maps
  every record of the response to a \<open>PartialPlayer\<close>.
\<close>

theorem message_record_handling:
  "(\<not> private_prop self
      \<and> get_champion_info tr dc language False st = (Inr b, st1)
      \<and> fetch tr (world st1) ''getmatchhistory'' [JInt (id' (base self))] = (Inr (r # rs), w2)
      \<and> getitem r ''ret_msg'' = Inr v \<and> truthy v \<longrightarrow>
    fst (get_match_history tr dc PartialMatch self language st) = Inr [])
   \<and> (\<not> private_prop self
      \<and> get_champion_info tr dc language False st = (Inr b, st1)
      \<and> fetch tr (world st1) ''getplayerloadouts'' [JInt (id' (base self)), JInt language]
           = (Inr (r # rs), w2)
      \<and> getitem r ''playerId'' = Inr v \<and> \<not> truthy v \<longrightarrow>
    fst (get_loadouts tr dc Loadout self language st) = Inr [])
   \<and> (\<not> private_prop self
      \<and> fetch tr (world st) ''getfriends'' [JInt (id' (base self))] = (Inr response, w1) \<longrightarrow>
    fst (get_friends tr po self st) = map_raise (friend_of po) response)"
  using match_history_message [of self tr dc language st b st1 r rs w2 v PartialMatch]
    loadouts_player_id [of self tr dc language st b st1 r rs w2 v Loadout]
    friends_all [of self tr st response w1 po]
  by blast

theorem message_record_handling_witness:
  "fst (get_match_history healthy raw_cache raw_constructor some_player 1 (warm_api 5)) = Inr []
   \<and> fst (get_loadouts healthy raw_cache raw_constructor some_player 1 (warm_api 5)) = Inr []
   \<and> fst (get_friends healthy plain_ops some_player (warm_api 5))
       = Inr [PartialPlayer \<lparr>id' = 0, name = JStr [], platform = JInt 0\<rparr>]"
proof -
  have p: "\<not> private_prop some_player" "id' (base some_player) = 7"
    by (simp_all add: private_prop_def some_player_def)
  have w: "world (warm_api 5) = 5"
    by (simp add: warm_api_def)
  have 1: "fst (get_match_history healthy raw_cache raw_constructor some_player 1 (warm_api 5)) = Inr []"
    using message_record_handling [where self = some_player and tr = healthy and dc = raw_cache
        and language = 1 and st = "warm_api 5" and ?st1.0 = "warm_api 5"
        and b = "Some ([champion], [item])" and r = message_record and rs = "[]" and ?w2.0 = 5
        and v = "JStr ''No data''" and PartialMatch = raw_constructor and Loadout = raw_constructor
        and response = "[message_record]" and ?w1.0 = 5 and po = plain_ops]
    by (simp add: p w info_warm healthy_def fetch_answering message_record_def getitem_def)
  have 2: "fst (get_loadouts healthy raw_cache raw_constructor some_player 1 (warm_api 5)) = Inr []"
    using message_record_handling [where self = some_player and tr = healthy and dc = raw_cache
        and language = 1 and st = "warm_api 5" and ?st1.0 = "warm_api 5"
        and b = "Some ([champion], [item])" and r = no_loadouts and rs = "[]" and ?w2.0 = 5
        and v = "JInt 0" and PartialMatch = raw_constructor and Loadout = raw_constructor
        and response = "[message_record]" and ?w1.0 = 5 and po = plain_ops]
    by (simp add: p w info_warm healthy_def fetch_answering no_loadouts_def getitem_def)
  have 3: "fst (get_friends healthy plain_ops some_player (warm_api 5))
       = Inr [PartialPlayer \<lparr>id' = 0, name = JStr [], platform = JInt 0\<rparr>]"
    using message_record_handling [where self = some_player and tr = healthy and dc = raw_cache
        and language = 1 and st = "warm_api 5" and ?st1.0 = "warm_api 5"
        and b = "Some ([champion], [item])" and r = no_loadouts and rs = "[]" and ?w2.0 = 5
        and v = "JInt 0" and PartialMatch = raw_constructor and Loadout = raw_constructor
        and response = "[message_record]" and ?w1.0 = 5 and po = plain_ops]
    by (simp add: p w healthy_def fetch_answering friend_of_message_record)
  show ?thesis using 1 2 3 by simp
qed

text \<open>
  A response of one record with a non-empty \<open>ret_msg\<close> gives a constructed value in two of
  the operations: a partial player in \<open>get_friends\<close>, and a loadout in \<open>get_loadouts\<close> when the
  record's \<open>playerId\<close> is not zero.
\<close>

theorem message_record_counterexample:
  "fst (get_friends only_message plain_ops some_player (warm_api 5))
     = Inr [PartialPlayer \<lparr>id' = 0, name = JStr [], platform = JInt 0\<rparr>]
   \<and> fst (get_loadouts only_message raw_cache raw_constructor some_player 1 (warm_api 5))
     = Inr [message_record]"
proof -
  have p: "\<not> private_prop some_player"
    by (simp add: private_prop_def some_player_def)
  have 1: "fst (get_friends only_message plain_ops some_player (warm_api 5))
     = Inr [PartialPlayer \<lparr>id' = 0, name = JStr [], platform = JInt 0\<rparr>]"
    by (simp add: get_friends_def p request_def only_message_def fetch_answering friend_of_message_record)
  have g: "getitem message_record ''playerId'' = Inr (JInt 7)"
    by (simp add: message_record_def getitem_def)
  have 2: "fst (get_loadouts only_message raw_cache raw_constructor some_player 1 (warm_api 5))
     = Inr [message_record]"
    by (simp add: get_loadouts_def p info_warm request_def only_message_def fetch_answering g
        raw_constructor_def)
  show ?thesis using 1 2 by simp
qed

section \<open>The lookup helpers\<close>

text \<open>
  The general branch of \<open>get\<close> is a first-match search: a returned element agrees with
  every getter and no element before it does, and \<open>None\<close> means that no element does.
\<close>

lemma get_multi_found:
  "get_multi bl gs xs = Inr (Some x) \<Longrightarrow>
   \<exists>pre post. xs = pre @ x # post \<and> all_getters_agree bl gs x = Inr True
      \<and> (\<forall>y \<in> set pre. all_getters_agree bl gs y = Inr False)"
proof (induction xs)
  case Nil
  then show ?case by simp
next
  case (Cons a xs)
  show ?case
  proof (cases "all_getters_agree bl gs a")
    case (Inl e)
    with Cons.prems show ?thesis by simp
  next
    case (Inr ok)
    show ?thesis
    proof (cases ok)
      case True
      with Inr Cons.prems have "x = a" by simp
      with Inr True have "a # xs = [] @ x # xs \<and> all_getters_agree bl gs x = Inr True
          \<and> (\<forall>y \<in> set []. all_getters_agree bl gs y = Inr False)" by simp
      then show ?thesis by blast
    next
      case False
      with Inr Cons.prems have "get_multi bl gs xs = Inr (Some x)" by simp
      from Cons.IH [OF this] obtain pre post where
        "xs = pre @ x # post" "all_getters_agree bl gs x = Inr True"
        "\<forall>y \<in> set pre. all_getters_agree bl gs y = Inr False" by blast
      with Inr False have "a # xs = (a # pre) @ x # post \<and> all_getters_agree bl gs x = Inr True
          \<and> (\<forall>y \<in> set (a # pre). all_getters_agree bl gs y = Inr False)" by simp
      then show ?thesis by blast
    qed
  qed
qed

lemma get_multi_absent:
  "get_multi bl gs xs = Inr None \<Longrightarrow> \<forall>y \<in> set xs. all_getters_agree bl gs y = Inr False"
  by (induction xs) (auto split: sum.splits bool.splits if_splits)

lemma get_general:
  "length attrs \<noteq> 1 \<Longrightarrow>
   get bl iterable attrs
     = get_multi bl (map (\<lambda>(attr, val). (attrgetter (replace_dunder attr), val)) attrs) iterable"
  by (simp add: get_def)

lemma get_one_keyword: "get bl iterable [(attr, val)] = Inl TypeError"
  by (simp add: get_def dict_pop_no_key_def)

text \<open>
  C4. With exactly one keyword argument \<open>get\<close> does not search at all: the branch written
  for that case starts with \<open>attrs.pop()\<close>, which raises \<open>TypeError\<close>. Searching a list
  whose only element has \<open>id == 1\<close> for \<open>id=1\<close> raises instead of returning the element.
\<close>

theorem get_one_attr_raises:
  "get bl [PObj 0 [(''id'', PInt 1)]] [(''id'', PInt 1)] = Inl TypeError"
  by (simp add: get_def dict_pop_no_key_def)

text \<open>
  C6, as the code has it. \<open>get_name_or_id\<close> returns what \<open>get\<close> returns for \<open>id=key\<close> when the
  key is an \<open>int\<close> (a \<open>bool\<close> is one), what \<open>get\<close> returns for \<open>name=key\<close> when the key is a
  \<open>str\<close>, and \<open>None\<close> for a key of any other type: neither branch is taken and nothing is
  raised.
\<close>

theorem get_name_or_id_dispatch:
  "get_name_or_id bl iterable (PInt k) = get bl iterable [(''id'', PInt k)]
   \<and> get_name_or_id bl iterable (PBool b) = get bl iterable [(''id'', PBool b)]
   \<and> get_name_or_id bl iterable (PStr s) = get bl iterable [(''name'', PStr s)]
   \<and> get_name_or_id bl iterable PNone = Inr None
   \<and> get_name_or_id bl iterable (PObj i attrs) = Inr None"
  by (simp add: get_name_or_id_def)

text \<open>A key that is neither an \<open>int\<close> nor a \<open>str\<close>, here \<open>None\<close>, gives \<open>None\<close> and no error.\<close>

theorem get_name_or_id_other_key_counterexample:
  "get_name_or_id no_scalar_lookup [PObj 0 [(''id'', PInt 1), (''name'', PStr ''Foo'')]] PNone = Inr None"
  by (simp add: get_name_or_id_def)

end
